theory Spec2Isabelle
  imports Main "HOL-Library.Signed_Division" "HOL-Library.Sublist"
begin

section \<open>The MAAS API client (client.go)\<close>

text \<open>
  A shallow embedding of \<^verbatim>\<open>client.go\<close>: the \<^verbatim>\<open>Client\<close> struct, its request
  dispatch, the four verbs, the anonymous signer and the two client factories.

  Go's standard library (\<^verbatim>\<open>net/url\<close>, \<^verbatim>\<open>net/http\<close>, \<^verbatim>\<open>io/ioutil\<close>) is not part of
  the repository. The small, stable pieces the code relies on (\<^verbatim>\<open>Values.Get\<close>,
  \<^verbatim>\<open>Values.Set\<close>, \<^verbatim>\<open>Header.Set\<close>, \<^verbatim>\<open>strings.Split\<close>) are written out; the rest
  (URL parsing, printing and resolution, query encoding, the HTTP round trip) is a record
  of functions every definition takes as its first argument.
\<close>

subsection \<open>Data\<close>

type_synonym bytes = string

text \<open>
  Go's \<^verbatim>\<open>error\<close> values. \<^verbatim>\<open>errorString\<close> is what \<^verbatim>\<open>errors.New\<close> allocates in this
  package; \<^verbatim>\<open>foreignError\<close> is an error value handed over by a collaborator (the
  transport, the URL parser, the signer constructor), carried on unchanged. The two never
  coincide: \<^verbatim>\<open>errors.New\<close> returns a fresh pointer at every call.
\<close>

datatype error = errorString string | foreignError string

text \<open>\<^verbatim>\<open>url.URL\<close>; \<^verbatim>\<open>User\<close> is the user name and the optional password.\<close>

record URL =
  Scheme :: string
  Opaque :: string
  User :: "(string \<times> string option) option"
  Host :: string
  Path :: string
  RawQuery :: string
  Fragment :: string

text \<open>\<^verbatim>\<open>url.Values\<close> and \<^verbatim>\<open>http.Header\<close>: \<^verbatim>\<open>map[string][]string\<close>.\<close>

type_synonym Values = "string \<rightharpoonup> string list"

type_synonym Header = "string \<rightharpoonup> string list"

text \<open>
  \<^verbatim>\<open>Values.Get\<close>: the first value under the key, and the empty string when the key is
  missing or holds no value.
\<close>

definition Values_Get :: "Values \<Rightarrow> string \<Rightarrow> string" where
  "Values_Get v key = (case v key of None \<Rightarrow> [] | Some [] \<Rightarrow> [] | Some (x # _) \<Rightarrow> x)"

definition Values_Set :: "Values \<Rightarrow> string \<Rightarrow> string \<Rightarrow> Values" where
  "Values_Set v key val = v(key \<mapsto> [val])"

text \<open>
  \<^verbatim>\<open>Header.Set\<close> on a key that is already in canonical form, as \<^verbatim>\<open>Content-Type\<close> is.
\<close>

definition Header_Set :: "Header \<Rightarrow> string \<Rightarrow> string \<Rightarrow> Header" where
  "Header_Set h key val = h(key \<mapsto> [val])"

text \<open>
  \<^verbatim>\<open>http.Request\<close>, as far as the client touches it. \<^verbatim>\<open>Body\<close> is \<open>None\<close> for the nil
  reader \<^verbatim>\<open>Get\<close> passes.
\<close>

record Request =
  Method :: string
  Target :: URL
  Headers :: Header
  Body :: "bytes option"

text \<open>
  \<^verbatim>\<open>http.Response\<close>: the status code, the status line (\<^verbatim>\<open>"404 Not Found"\<close>) and what
  \<^verbatim>\<open>ioutil.ReadAll(response.Body)\<close> returns: the bytes read and the read error, if any.
\<close>

record Response =
  StatusCode :: int
  Status :: string
  ReadAll_Body :: "bytes \<times> string option"

text \<open>
  The \<^verbatim>\<open>OAuthSigner\<close> interface has one method, \<^verbatim>\<open>OAuthSign(request *http.Request) error\<close>.
  A signer is that method: it returns the request as it has left it, and its error.
\<close>

type_synonym OAuthSigner = "Request \<Rightarrow> Request \<times> error option"

record OAuthToken =
  ConsumerKey :: string
  ConsumerSecret :: string
  TokenKey :: string
  TokenSecret :: string

text \<open>
  Pointers are addresses. \<^verbatim>\<open>*url.URL\<close> arguments and the \<^verbatim>\<open>url.Values\<close> map (a reference
  type in Go) live in a store, so that a write through one name is seen through every
  other. An address the store does not hold is the nil pointer, respectively the nil map.
\<close>

type_synonym addr = nat

record Client =
  BaseURL :: addr
  Signer :: OAuthSigner

text \<open>
  The state a call runs in: the URL objects, the parameter maps, the next free address,
  and every request handed to \<^verbatim>\<open>http.Client.Do\<close> so far, oldest first.
\<close>

record state =
  urls :: "addr \<rightharpoonup> URL"
  vals :: "addr \<rightharpoonup> Values"
  next_addr :: addr
  dispatched :: "Request list"

text \<open>
  The standard library functions the client calls. The receiver of
  \<^verbatim>\<open>ResolveReference\<close> is a pointer that may be nil (\<open>None\<close>).
\<close>

record env =
  url_Parse :: "string \<Rightarrow> string + URL"
  URL_String :: "URL \<Rightarrow> string"
  URL_ResolveReference :: "URL option \<Rightarrow> URL \<Rightarrow> URL"
  Values_Encode :: "Values \<Rightarrow> string"
  httpClient_Do :: "Request \<Rightarrow> string + Response"

text \<open>A call returns, or panics (a nil pointer dereference, a write to a nil map).\<close>

datatype 'a outcome = Panic | Returns 'a

text \<open>Reading a \<^verbatim>\<open>url.Values\<close>: a nil map reads as the empty map.\<close>

definition read_values :: "state \<Rightarrow> addr \<Rightarrow> Values" where
  "read_values s p = (case vals s p of None \<Rightarrow> Map.empty | Some v \<Rightarrow> v)"

text \<open>
  \<^verbatim>\<open>http.NewRequest(method, urlStr, body)\<close>: parses the URL and fails where the parser
  does. The methods the client passes are constants the library accepts.
\<close>

definition http_NewRequest :: "env \<Rightarrow> string \<Rightarrow> string \<Rightarrow> bytes option \<Rightarrow> error + Request" where
  "http_NewRequest E method urlStr body =
     (case url_Parse E urlStr of
        Inl err \<Rightarrow> Inl (foreignError err)
      | Inr u \<Rightarrow> Inr \<lparr>Method = method, Target = u, Headers = Map.empty, Body = body\<rparr>)"

text \<open>
  \<^verbatim>\<open>strings.Split(s, sep)\<close> for a separator of one byte, which is how the source calls
  it (\<^verbatim>\<open>":"\<close>).
\<close>

fun strings_Split :: "string \<Rightarrow> char \<Rightarrow> string list" where
  "strings_Split [] sep = [[]]"
| "strings_Split (c # cs) sep =
     (if c = sep then [] # strings_Split cs sep
      else (case strings_Split cs sep of
              [] \<Rightarrow> [[c]]
            | f # fs \<Rightarrow> (c # f) # fs))"

subsection \<open>Dispatch\<close>

text \<open>
  \<^verbatim>\<open>dispatchRequest\<close>: sign (the signer's error is dropped), send, read the whole body,
  classify the status code. \<^verbatim>\<open>/\<close> on Go's \<^verbatim>\<open>int\<close> truncates towards zero: \<open>sdiv\<close>.
\<close>

definition dispatchRequest ::
  "env \<Rightarrow> Client \<Rightarrow> Request \<Rightarrow> state \<Rightarrow> (bytes option \<times> error option) \<times> state" where
  "dispatchRequest E client request s =
     (let request = fst (Signer client request);
          s = s\<lparr>dispatched := dispatched s @ [request]\<rparr>
      in case httpClient_Do E request of
           Inl err \<Rightarrow> ((None, Some (foreignError err)), s)
         | Inr response \<Rightarrow>
             (case ReadAll_Body response of
                (body, Some err) \<Rightarrow> ((None, Some (foreignError err)), s)
              | (body, None) \<Rightarrow>
                  if StatusCode response sdiv 100 \<noteq> 2
                  then ((Some body,
                         Some (errorString
                           (''Error requesting the MAAS server: '' @ Status response @ ''.''))), s)
                  else ((Some body, None), s)))"

text \<open>
  \<^verbatim>\<open>GetURL\<close>. \<^verbatim>\<open>ResolveReference\<close> returns a new URL object that nothing else points
  to, so the result is the object itself rather than an address. It reads the reference
  first, so a nil reference panics; it reads its receiver only when the reference has no
  scheme, so a nil base address panics for a relative reference and not for an absolute
  one.
\<close>

definition GetURL :: "env \<Rightarrow> Client \<Rightarrow> addr \<Rightarrow> state \<Rightarrow> URL outcome" where
  "GetURL E client URI s =
     (case urls s URI of
        None \<Rightarrow> Panic
      | Some ref \<Rightarrow>
          (case urls s (BaseURL client) of
             None \<Rightarrow>
               if Scheme ref \<noteq> [] then Returns (URL_ResolveReference E None ref) else Panic
           | Some base \<Rightarrow> Returns (URL_ResolveReference E (Some base) ref)))"

subsection \<open>The verbs\<close>

text \<open>
  The format string of \<^verbatim>\<open>Get\<close>'s error has a \<^verbatim>\<open>%s\<close> and no argument, which
  \<^verbatim>\<open>fmt.Sprintf\<close> prints as \<^verbatim>\<open>%!s(MISSING)\<close>.
\<close>

definition reserved_parameter_message :: string where
  "reserved_parameter_message =
     ''The parameters contain a value for '' @ [CHR 0x27] @ ''%!s(MISSING)'' @ [CHR 0x27] @
     '' which is reserved parameter.''"

definition Get ::
  "env \<Rightarrow> Client \<Rightarrow> addr \<Rightarrow> string \<Rightarrow> addr \<Rightarrow> state \<Rightarrow>
     (bytes option \<times> error option) outcome \<times> state" where
  "Get E client URI operation parameters s =
     (let opParameter = Values_Get (read_values s parameters) ''op'' in
      if opParameter \<noteq> [] then
        (Returns (None, Some (errorString reserved_parameter_message)), s)
      else
        (case (if operation \<noteq> [] then
                 (case vals s parameters of
                    None \<Rightarrow> None
                  | Some v \<Rightarrow>
                      Some (s\<lparr>vals := (vals s)(parameters \<mapsto> Values_Set v ''op'' operation)\<rparr>))
               else Some s) of
           None \<Rightarrow> (Panic, s)
         | Some s1 \<Rightarrow>
             (case GetURL E client URI s1 of
                Panic \<Rightarrow> (Panic, s1)
              | Returns queryUrl \<Rightarrow>
                  (let queryUrl = queryUrl\<lparr>RawQuery := Values_Encode E (read_values s1 parameters)\<rparr>
                   in case http_NewRequest E ''GET'' (URL_String E queryUrl) None of
                        Inl err \<Rightarrow> (Returns (None, Some err), s1)
                      | Inr request \<Rightarrow>
                          (case dispatchRequest E client request s1 of
                             (r, s2) \<Rightarrow> (Returns r, s2))))))"

definition nonIdempotentRequest ::
  "env \<Rightarrow> Client \<Rightarrow> string \<Rightarrow> addr \<Rightarrow> addr \<Rightarrow> state \<Rightarrow>
     (bytes option \<times> error option) outcome \<times> state" where
  "nonIdempotentRequest E client method URI parameters s =
     (case GetURL E client URI s of
        Panic \<Rightarrow> (Panic, s)
      | Returns URL' \<Rightarrow>
          (case http_NewRequest E method (URL_String E URL')
                  (Some (Values_Encode E (read_values s parameters))) of
             Inl err \<Rightarrow> (Returns (None, Some err), s)
           | Inr request \<Rightarrow>
               (let request = request\<lparr>Headers :=
                      Header_Set (Headers request) ''Content-Type''
                        ''application/x-www-form-urlencoded''\<rparr>
                in case dispatchRequest E client request s of
                     (r, s') \<Rightarrow> (Returns r, s'))))"

definition Post ::
  "env \<Rightarrow> Client \<Rightarrow> addr \<Rightarrow> string \<Rightarrow> addr \<Rightarrow> state \<Rightarrow>
     (bytes option \<times> error option) outcome \<times> state" where
  "Post E client URI operation parameters s =
     (let queryParams = [''op'' \<mapsto> [operation]] in
      case urls s URI of
        None \<Rightarrow> (Panic, s)
      | Some u \<Rightarrow>
          nonIdempotentRequest E client ''POST'' URI parameters
            (s\<lparr>urls := (urls s)(URI \<mapsto> u\<lparr>RawQuery := Values_Encode E queryParams\<rparr>)\<rparr>))"

definition Put ::
  "env \<Rightarrow> Client \<Rightarrow> addr \<Rightarrow> addr \<Rightarrow> state \<Rightarrow>
     (bytes option \<times> error option) outcome \<times> state" where
  "Put E client URI parameters s = nonIdempotentRequest E client ''PUT'' URI parameters s"

definition Delete :: "env \<Rightarrow> Client \<Rightarrow> addr \<Rightarrow> state \<Rightarrow> error option outcome \<times> state" where
  "Delete E client URI s =
     (case GetURL E client URI s of
        Panic \<Rightarrow> (Panic, s)
      | Returns URL' \<Rightarrow>
          (case http_NewRequest E ''DELETE'' (URL_String E URL') (Some []) of
             Inl err \<Rightarrow> (Returns (Some err), s)
           | Inr request \<Rightarrow>
               (case dispatchRequest E client request s of
                  ((_, err2), s') \<Rightarrow>
                    (case err2 of
                       Some e \<Rightarrow> (Returns (Some e), s')
                     | None \<Rightarrow> (Returns None, s')))))"

subsection \<open>Signers and factories\<close>

definition anonSigner_OAuthSign :: OAuthSigner where
  "anonSigner_OAuthSign request = (request, None)"

text \<open>Storing a new URL object: \<^verbatim>\<open>url.Parse\<close> returns a pointer to a fresh one.\<close>

definition new_URL :: "URL \<Rightarrow> state \<Rightarrow> addr \<times> state" where
  "new_URL u s =
     (next_addr s, s\<lparr>urls := (urls s)(next_addr s \<mapsto> u), next_addr := Suc (next_addr s)\<rparr>)"

definition NewAnonymousClient :: "env \<Rightarrow> string \<Rightarrow> state \<Rightarrow> (Client option \<times> error option) \<times> state" where
  "NewAnonymousClient E BaseURL' s =
     (case url_Parse E BaseURL' of
        Inl err \<Rightarrow> ((None, Some (foreignError err)), s)
      | Inr parsedBaseURL \<Rightarrow>
          (case new_URL parsedBaseURL s of
             (a, s') \<Rightarrow> ((Some \<lparr>BaseURL = a, Signer = anonSigner_OAuthSign\<rparr>, None), s')))"

definition invalid_api_key_message :: string where
  "invalid_api_key_message =
     ''Invalid API key. The format of the key must be '' @ [CHR 0x22] @
     ''<consumer secret>:<token key>:<token secret>'' @ [CHR 0x22] @ ''.''"

text \<open>The token literal of \<^verbatim>\<open>NewAuthenticatedClient\<close>, built from the three fields.\<close>

definition NewAuthenticatedClient_token :: "string list \<Rightarrow> OAuthToken" where
  "NewAuthenticatedClient_token elements =
     \<lparr>ConsumerKey = elements ! 0,
      ConsumerSecret = [],
      TokenKey = elements ! 1,
      TokenSecret = elements ! 2\<rparr>"

text \<open>
  \<^verbatim>\<open>NewAuthenticatedClient\<close>. The signer constructor \<^verbatim>\<open>NewPLAINTEXTOAuthSigner\<close> is
  defined in a file of the repository that is not among the sources read here; it is the
  second argument. It returns a signer or the message of its error.
\<close>

definition NewAuthenticatedClient ::
  "env \<Rightarrow> (OAuthToken \<Rightarrow> string \<Rightarrow> string + OAuthSigner) \<Rightarrow> string \<Rightarrow> string \<Rightarrow> state \<Rightarrow>
     (Client option \<times> error option) \<times> state" where
  "NewAuthenticatedClient E NewPLAINTEXTOAuthSigner BaseURL' apiKey s =
     (let elements = strings_Split apiKey (CHR '':'') in
      if length elements \<noteq> 3 then ((None, Some (errorString invalid_api_key_message)), s)
      else
        (let token = NewAuthenticatedClient_token elements in
         case NewPLAINTEXTOAuthSigner token ''MAAS API'' of
           Inl err \<Rightarrow> ((None, Some (foreignError err)), s)
         | Inr signer \<Rightarrow>
             (case url_Parse E BaseURL' of
                Inl err \<Rightarrow> ((None, Some (foreignError err)), s)
              | Inr parsedBaseURL \<Rightarrow>
                  (case new_URL parsedBaseURL s of
                     (a, s') \<Rightarrow> ((Some \<lparr>BaseURL = a, Signer = signer\<rparr>, None), s')))))"

section \<open>A test transport\<close>

text \<open>
  Concrete collaborators for running the client on explicit inputs: a URL library that
  knows paths and queries only, an encoder that prints the parameters \<^verbatim>\<open>name\<close> and
  \<^verbatim>\<open>op\<close> only, and a transport that gives every request the same answer.
\<close>

definition test_URL :: URL where
  "test_URL =
     \<lparr>Scheme = ''http'', Opaque = [], User = None, Host = ''maas'', Path = ''/api/'',
      RawQuery = [], Fragment = []\<rparr>"

definition test_env :: "string + Response \<Rightarrow> env" where
  "test_env answer =
     \<lparr>url_Parse = (\<lambda>str. Inr (test_URL\<lparr>
          Path := takeWhile (\<lambda>c. c \<noteq> CHR ''?'') str,
          RawQuery := drop 1 (dropWhile (\<lambda>c. c \<noteq> CHR ''?'') str)\<rparr>)),
      URL_String = (\<lambda>u. Path u @ (if RawQuery u = [] then [] else ''?'' @ RawQuery u)),
      URL_ResolveReference = (\<lambda>base ref.
          case base of
            None \<Rightarrow> ref
          | Some b \<Rightarrow> ref\<lparr>Scheme := Scheme b, Host := Host b, Path := Path b @ Path ref\<rparr>),
      Values_Encode = (\<lambda>v.
          (if v ''name'' = None then [] else ''name='' @ Values_Get v ''name'') @
          (if v ''name'' = None \<or> v ''op'' = None then [] else ''&'') @
          (if v ''op'' = None then [] else ''op='' @ Values_Get v ''op'')),
      httpClient_Do = (\<lambda>request. answer)\<rparr>"

definition test_client :: Client where
  "test_client = \<lparr>BaseURL = 0, Signer = anonSigner_OAuthSign\<rparr>"

text \<open>
  The base URL at address 0, a resource URI with a query of its own at 1, an empty
  parameter map at 2, at 3 a parameter map that holds \<^verbatim>\<open>op\<close> with an empty value, and
  at 4 one that holds a name.
\<close>

definition test_state :: state where
  "test_state =
     \<lparr>urls = [0 \<mapsto> test_URL, 1 \<mapsto> test_URL\<lparr>Path := ''nodes/'', RawQuery := ''x=1''\<rparr>],
      vals = [2 \<mapsto> Map.empty, 3 \<mapsto> [''op'' \<mapsto> [[]]], 4 \<mapsto> [''name'' \<mapsto> [''n1'']]],
      next_addr = 5,
      dispatched = []\<rparr>"

definition test_response :: "int \<Rightarrow> string \<Rightarrow> Response" where
  "test_response code line = \<lparr>StatusCode = code, Status = line, ReadAll_Body = (''payload'', None)\<rparr>"

section \<open>Properties\<close>

subsection \<open>Auxiliary facts\<close>

lemma sdiv_100_eq_2: "((n::int) sdiv 100 = 2) = (200 \<le> n \<and> n \<le> 299)"
proof (cases "0 \<le> n")
  case True
  then have "n sdiv 100 = n div 100" by (simp add: signed_divide_int_def sgn_if)
  then show ?thesis by auto
next
  case False
  then have "n sdiv 100 = - (\<bar>n\<bar> div 100)" by (simp add: signed_divide_int_def sgn_if)
  moreover have "0 \<le> \<bar>n\<bar> div 100" by simp
  ultimately show ?thesis using False by auto
qed

lemma dispatchRequest_state:
  "snd (dispatchRequest E c rq s) = s\<lparr>dispatched := dispatched s @ [fst (Signer c rq)]\<rparr>"
  by (simp add: dispatchRequest_def Let_def split: sum.splits prod.splits option.splits)

lemma dispatchRequest_completes:
  assumes "httpClient_Do E (fst (Signer c rq)) = Inr resp" and "ReadAll_Body resp = (body, None)"
  shows "fst (dispatchRequest E c rq s) =
    (Some body, if 200 \<le> StatusCode resp \<and> StatusCode resp \<le> 299 then None
       else Some (errorString (''Error requesting the MAAS server: '' @ Status resp @ ''.'')))"
  using assms by (simp add: dispatchRequest_def Let_def sdiv_100_eq_2)

lemma dispatchRequest_fails:
  assumes "httpClient_Do E (fst (Signer c rq)) = Inl e \<or>
           (httpClient_Do E (fst (Signer c rq)) = Inr resp \<and> ReadAll_Body resp = (b, Some e))"
  shows "fst (dispatchRequest E c rq s) = (None, Some (foreignError e))"
  using assms by (auto simp add: dispatchRequest_def Let_def)

lemma length_strings_Split: "length (strings_Split s c) = Suc (count_list s c)"
  by (induction s) (auto split: list.splits)

lemma Get_dispatch:
  assumes "dispatched (snd (Get E c URI operation ps s)) = dispatched s @ [rq]"
  shows "\<exists>request s1. fst (Signer c request) = rq \<and>
           fst (Get E c URI operation ps s) = Returns (fst (dispatchRequest E c request s1))"
  using assms
  by (auto simp add: Get_def Let_def split_beta dispatchRequest_state
      split: if_splits option.splits outcome.splits sum.splits)

lemma nonIdempotentRequest_dispatch:
  assumes "dispatched (snd (nonIdempotentRequest E c m URI ps s)) = dispatched s @ [rq]"
  shows "\<exists>request. fst (Signer c request) = rq \<and>
           fst (nonIdempotentRequest E c m URI ps s) =
             Returns (fst (dispatchRequest E c request s))"
  using assms
  by (auto simp add: nonIdempotentRequest_def Let_def split_beta dispatchRequest_state
      split: if_splits option.splits outcome.splits sum.splits)

lemma Post_dispatch:
  assumes "dispatched (snd (Post E c URI operation ps s)) = dispatched s @ [rq]"
  shows "\<exists>request s1. fst (Signer c request) = rq \<and>
           fst (Post E c URI operation ps s) = Returns (fst (dispatchRequest E c request s1))"
proof (cases "urls s URI")
  case None
  with assms show ?thesis by (simp add: Post_def)
next
  case (Some u)
  let ?s1 = "s\<lparr>urls := (urls s)(URI \<mapsto> u\<lparr>RawQuery := Values_Encode E [''op'' \<mapsto> [operation]]\<rparr>)\<rparr>"
  from Some have eq: "Post E c URI operation ps s = nonIdempotentRequest E c ''POST'' URI ps ?s1"
    by (simp add: Post_def)
  with assms have "dispatched (snd (nonIdempotentRequest E c ''POST'' URI ps ?s1)) = dispatched ?s1 @ [rq]"
    by simp
  from nonIdempotentRequest_dispatch [OF this] eq show ?thesis by auto
qed

lemma Delete_dispatch:
  assumes "dispatched (snd (Delete E c URI s)) = dispatched s @ [rq]"
  shows "\<exists>request. fst (Signer c request) = rq \<and>
           fst (Delete E c URI s) = Returns (snd (fst (dispatchRequest E c request s)))"
  using assms
  by (auto simp add: Delete_def Let_def split_beta dispatchRequest_state
      split: if_splits option.splits outcome.splits sum.splits)

lemma nonIdempotentRequest_store:
  "urls (snd (nonIdempotentRequest E c m URI ps s)) = urls s \<and>
   vals (snd (nonIdempotentRequest E c m URI ps s)) = vals s"
  by (simp add: nonIdempotentRequest_def Let_def split_beta dispatchRequest_state
      split: outcome.splits sum.splits)

lemma GetURL_Returns:
  assumes "urls s URI = Some ref" and "Scheme ref \<noteq> [] \<or> urls s (BaseURL c) \<noteq> None"
  shows "GetURL E c URI s = Returns (URL_ResolveReference E (urls s (BaseURL c)) ref)"
  using assms by (auto simp add: GetURL_def split: option.splits)

lemma nonIdempotentRequest_run:
  assumes "urls s URI = Some ref"
    and "Scheme ref \<noteq> [] \<or> urls s (BaseURL c) \<noteq> None"
    and "url_Parse E (URL_String E (URL_ResolveReference E (urls s (BaseURL c)) ref)) = Inr target"
    and "request = \<lparr>Method = m, Target = target,
           Headers = [''Content-Type'' \<mapsto> [''application/x-www-form-urlencoded'']],
           Body = Some (Values_Encode E (read_values s ps))\<rparr>"
  shows "fst (nonIdempotentRequest E c m URI ps s) = Returns (fst (dispatchRequest E c request s)) \<and>
         snd (nonIdempotentRequest E c m URI ps s) =
           s\<lparr>dispatched := dispatched s @ [fst (Signer c request)]\<rparr>"
  using assms(3,4)
  by (simp add: nonIdempotentRequest_def GetURL_Returns [OF assms(1,2)] http_NewRequest_def
      Header_Set_def Let_def split_beta dispatchRequest_state)

lemma Post_run:
  assumes "urls s URI = Some u"
    and "ref = u\<lparr>RawQuery := Values_Encode E [''op'' \<mapsto> [operation]]\<rparr>"
    and "Scheme u \<noteq> [] \<or> BaseURL c = URI \<or> urls s (BaseURL c) \<noteq> None"
    and "url_Parse E (URL_String E (URL_ResolveReference E
           (if BaseURL c = URI then Some ref else urls s (BaseURL c)) ref)) = Inr target"
    and "request = \<lparr>Method = ''POST'', Target = target,
           Headers = [''Content-Type'' \<mapsto> [''application/x-www-form-urlencoded'']],
           Body = Some (Values_Encode E (read_values s ps))\<rparr>"
  shows "fst (Post E c URI operation ps s) =
           Returns (fst (dispatchRequest E c request (s\<lparr>urls := (urls s)(URI \<mapsto> ref)\<rparr>))) \<and>
         dispatched (snd (Post E c URI operation ps s)) = dispatched s @ [fst (Signer c request)]"
proof -
  let ?s1 = "s\<lparr>urls := (urls s)(URI \<mapsto> ref)\<rparr>"
  have eq: "Post E c URI operation ps s = nonIdempotentRequest E c ''POST'' URI ps ?s1"
    using assms(1,2) by (simp add: Post_def)
  have a: "urls ?s1 URI = Some ref" by simp
  have b: "Scheme ref \<noteq> [] \<or> urls ?s1 (BaseURL c) \<noteq> None"
    using assms(2,3) by auto
  have c: "url_Parse E (URL_String E (URL_ResolveReference E (urls ?s1 (BaseURL c)) ref)) = Inr target"
    using assms(4) by simp
  have d: "request = \<lparr>Method = ''POST'', Target = target,
           Headers = [''Content-Type'' \<mapsto> [''application/x-www-form-urlencoded'']],
           Body = Some (Values_Encode E (read_values ?s1 ps))\<rparr>"
    using assms(5) by (simp add: read_values_def)
  from nonIdempotentRequest_run [OF a b c d] eq show ?thesis by simp
qed

lemma Delete_run:
  assumes "urls s URI = Some ref"
    and "Scheme ref \<noteq> [] \<or> urls s (BaseURL c) \<noteq> None"
    and "url_Parse E (URL_String E (URL_ResolveReference E (urls s (BaseURL c)) ref)) = Inr target"
    and "request = \<lparr>Method = ''DELETE'', Target = target, Headers = Map.empty, Body = Some []\<rparr>"
  shows "fst (Delete E c URI s) = Returns (snd (fst (dispatchRequest E c request s))) \<and>
         dispatched (snd (Delete E c URI s)) = dispatched s @ [fst (Signer c request)]"
  using assms(3,4)
  by (simp add: Delete_def GetURL_Returns [OF assms(1,2)] http_NewRequest_def
      Let_def split_beta dispatchRequest_state split: option.splits)

lemma Get_run:
  assumes "Values_Get (read_values s ps) ''op'' = []"
    and "operation = [] \<or> vals s ps \<noteq> None"
    and "urls s URI = Some ref"
    and "Scheme ref \<noteq> [] \<or> urls s (BaseURL c) \<noteq> None"
    and "query = (if operation \<noteq> [] then (read_values s ps)(''op'' \<mapsto> [operation])
                  else read_values s ps)"
    and "url_Parse E (URL_String E ((URL_ResolveReference E (urls s (BaseURL c)) ref)
           \<lparr>RawQuery := Values_Encode E query\<rparr>)) = Inr target"
    and "request = \<lparr>Method = ''GET'', Target = target, Headers = Map.empty, Body = None\<rparr>"
  shows "(\<exists>s1. fst (Get E c URI operation ps s) = Returns (fst (dispatchRequest E c request s1))) \<and>
         dispatched (snd (Get E c URI operation ps s)) = dispatched s @ [fst (Signer c request)]"
proof (cases "operation = []")
  case True
  with assms(1,5,6,7) show ?thesis
    by (auto simp add: Get_def GetURL_Returns [OF assms(3,4)] http_NewRequest_def
        Let_def split_beta dispatchRequest_state)
next
  case False
  with assms(2) obtain v where v: "vals s ps = Some v" by auto
  let ?s1 = "s\<lparr>vals := (vals s)(ps \<mapsto> Values_Set v ''op'' operation)\<rparr>"
  have a: "urls ?s1 URI = Some ref" using assms(3) by simp
  have b: "Scheme ref \<noteq> [] \<or> urls ?s1 (BaseURL c) \<noteq> None" using assms(4) by simp
  have q: "read_values ?s1 ps = query"
    using assms(5) False v by (simp add: read_values_def Values_Set_def)
  from GetURL_Returns [OF a b, of E] False v assms(1,6,7) q show ?thesis
    by (auto simp add: Get_def http_NewRequest_def Let_def split_beta dispatchRequest_state)
qed

text \<open>The definitions a run on the test transport unfolds.\<close>

lemmas run_defs = Get_def Post_def Put_def Delete_def nonIdempotentRequest_def Let_def split_beta
  dispatchRequest_state GetURL_def http_NewRequest_def read_values_def Values_Get_def
  Values_Set_def Header_Set_def test_env_def test_client_def test_state_def test_URL_def
  anonSigner_OAuthSign_def test_response_def

lemmas test_defs = test_env_def test_client_def test_state_def test_URL_def test_response_def
  anonSigner_OAuthSign_def read_values_def Values_Get_def

subsection \<open>Status classification\<close>

text \<open>
  C1. For every verb call (Get, Post, Put, Delete) whose HTTP exchange completes (the call
  handed the request \<open>rq\<close> to the transport, the transport answered with a response, and
  the body of the response was read to its end), a status code in [200,299] yields the
  body bytes and a nil error (for Delete, a nil error), and any other status code yields
  the body bytes together with an error whose message contains the status text. And the
  exchange does take place: a call that gets past its own steps (for Get the reserved-key
  check and the write to the parameter map; for every verb a resource URI that is not
  nil, a base address that is not nil unless the URI has a scheme, and a URL string that
  parses) hands the request it has built, signed, to the transport, as the one request
  it dispatches, and returns the result classified as above.
\<close>

theorem status_classification:
  assumes "httpClient_Do E rq = Inr resp"
    and "ReadAll_Body resp = (body, None)"
    and "message = ''Error requesting the MAAS server: '' @ Status resp @ ''.''"
    and "expected = (if 200 \<le> StatusCode resp \<and> StatusCode resp \<le> 299 then None
                     else Some (errorString message))"
  shows "(dispatched (snd (Get E c URI operation ps s)) = dispatched s @ [rq] \<longrightarrow>
            fst (Get E c URI operation ps s) = Returns (Some body, expected)) \<and>
         (dispatched (snd (Post E c URI operation ps s)) = dispatched s @ [rq] \<longrightarrow>
            fst (Post E c URI operation ps s) = Returns (Some body, expected)) \<and>
         (dispatched (snd (Put E c URI ps s)) = dispatched s @ [rq] \<longrightarrow>
            fst (Put E c URI ps s) = Returns (Some body, expected)) \<and>
         (dispatched (snd (Delete E c URI s)) = dispatched s @ [rq] \<longrightarrow>
            fst (Delete E c URI s) = Returns expected) \<and>
         (Values_Get (read_values s ps) ''op'' = [] \<and>
          (operation = [] \<or> vals s ps \<noteq> None) \<and>
          urls s URI = Some ref \<and>
          (Scheme ref \<noteq> [] \<or> urls s (BaseURL c) \<noteq> None) \<and>
          url_Parse E (URL_String E ((URL_ResolveReference E (urls s (BaseURL c)) ref)
            \<lparr>RawQuery := Values_Encode E
               (if operation \<noteq> [] then (read_values s ps)(''op'' \<mapsto> [operation])
                else read_values s ps)\<rparr>)) = Inr target_get \<and>
          fst (Signer c \<lparr>Method = ''GET'', Target = target_get, Headers = Map.empty,
                          Body = None\<rparr>) = rq \<longrightarrow>
            fst (Get E c URI operation ps s) = Returns (Some body, expected) \<and>
            dispatched (snd (Get E c URI operation ps s)) = dispatched s @ [rq]) \<and>
         (urls s URI = Some ref \<and>
          (Scheme ref \<noteq> [] \<or> BaseURL c = URI \<or> urls s (BaseURL c) \<noteq> None) \<and>
          url_Parse E (URL_String E (URL_ResolveReference E
            (if BaseURL c = URI
             then Some (ref\<lparr>RawQuery := Values_Encode E [''op'' \<mapsto> [operation]]\<rparr>)
             else urls s (BaseURL c))
            (ref\<lparr>RawQuery := Values_Encode E [''op'' \<mapsto> [operation]]\<rparr>))) = Inr target_post \<and>
          fst (Signer c \<lparr>Method = ''POST'', Target = target_post,
                          Headers = [''Content-Type'' \<mapsto> [''application/x-www-form-urlencoded'']],
                          Body = Some (Values_Encode E (read_values s ps))\<rparr>) = rq \<longrightarrow>
            fst (Post E c URI operation ps s) = Returns (Some body, expected) \<and>
            dispatched (snd (Post E c URI operation ps s)) = dispatched s @ [rq]) \<and>
         (urls s URI = Some ref \<and>
          (Scheme ref \<noteq> [] \<or> urls s (BaseURL c) \<noteq> None) \<and>
          url_Parse E (URL_String E (URL_ResolveReference E (urls s (BaseURL c)) ref))
            = Inr target_put \<and>
          fst (Signer c \<lparr>Method = ''PUT'', Target = target_put,
                          Headers = [''Content-Type'' \<mapsto> [''application/x-www-form-urlencoded'']],
                          Body = Some (Values_Encode E (read_values s ps))\<rparr>) = rq \<longrightarrow>
            fst (Put E c URI ps s) = Returns (Some body, expected) \<and>
            dispatched (snd (Put E c URI ps s)) = dispatched s @ [rq]) \<and>
         (urls s URI = Some ref \<and>
          (Scheme ref \<noteq> [] \<or> urls s (BaseURL c) \<noteq> None) \<and>
          url_Parse E (URL_String E (URL_ResolveReference E (urls s (BaseURL c)) ref))
            = Inr target_delete \<and>
          fst (Signer c \<lparr>Method = ''DELETE'', Target = target_delete, Headers = Map.empty,
                          Body = Some []\<rparr>) = rq \<longrightarrow>
            fst (Delete E c URI s) = Returns expected \<and>
            dispatched (snd (Delete E c URI s)) = dispatched s @ [rq]) \<and>
         sublist (Status resp) message"
proof -
  have disp: "fst (dispatchRequest E c request s1) = (Some body, expected)"
    if "fst (Signer c request) = rq" for request s1
    using dispatchRequest_completes [of E c request resp body s1] assms that by simp
  have g: "fst (Get E c URI operation ps s) = Returns (Some body, expected)"
    if "dispatched (snd (Get E c URI operation ps s)) = dispatched s @ [rq]"
    using Get_dispatch [OF that] disp by auto
  have po: "fst (Post E c URI operation ps s) = Returns (Some body, expected)"
    if "dispatched (snd (Post E c URI operation ps s)) = dispatched s @ [rq]"
    using Post_dispatch [OF that] disp by auto
  have pu: "fst (Put E c URI ps s) = Returns (Some body, expected)"
    if "dispatched (snd (Put E c URI ps s)) = dispatched s @ [rq]"
    using nonIdempotentRequest_dispatch [of E c "''PUT''" URI ps s rq] that disp
    by (auto simp add: Put_def)
  have d: "fst (Delete E c URI s) = Returns expected"
    if "dispatched (snd (Delete E c URI s)) = dispatched s @ [rq]"
    using Delete_dispatch [OF that] disp by auto
  have run_get: "dispatched (snd (Get E c URI operation ps s)) = dispatched s @ [rq]"
    if "Values_Get (read_values s ps) ''op'' = []"
      and "operation = [] \<or> vals s ps \<noteq> None"
      and "urls s URI = Some ref"
      and "Scheme ref \<noteq> [] \<or> urls s (BaseURL c) \<noteq> None"
      and "url_Parse E (URL_String E ((URL_ResolveReference E (urls s (BaseURL c)) ref)
            \<lparr>RawQuery := Values_Encode E
               (if operation \<noteq> [] then (read_values s ps)(''op'' \<mapsto> [operation])
                else read_values s ps)\<rparr>)) = Inr target_get"
      and "fst (Signer c \<lparr>Method = ''GET'', Target = target_get, Headers = Map.empty,
                          Body = None\<rparr>) = rq"
    using Get_run [OF that(1,2,3,4) refl that(5) refl] that(6) by simp
  have run_post: "dispatched (snd (Post E c URI operation ps s)) = dispatched s @ [rq]"
    if "urls s URI = Some ref"
      and "Scheme ref \<noteq> [] \<or> BaseURL c = URI \<or> urls s (BaseURL c) \<noteq> None"
      and "url_Parse E (URL_String E (URL_ResolveReference E
            (if BaseURL c = URI
             then Some (ref\<lparr>RawQuery := Values_Encode E [''op'' \<mapsto> [operation]]\<rparr>)
             else urls s (BaseURL c))
            (ref\<lparr>RawQuery := Values_Encode E [''op'' \<mapsto> [operation]]\<rparr>))) = Inr target_post"
      and "fst (Signer c \<lparr>Method = ''POST'', Target = target_post,
                          Headers = [''Content-Type'' \<mapsto> [''application/x-www-form-urlencoded'']],
                          Body = Some (Values_Encode E (read_values s ps))\<rparr>) = rq"
    using Post_run [OF that(1) refl that(2,3) refl] that(4) by simp
  have run_put: "dispatched (snd (Put E c URI ps s)) = dispatched s @ [rq]"
    if "urls s URI = Some ref"
      and "Scheme ref \<noteq> [] \<or> urls s (BaseURL c) \<noteq> None"
      and "url_Parse E (URL_String E (URL_ResolveReference E (urls s (BaseURL c)) ref))
            = Inr target_put"
      and "fst (Signer c \<lparr>Method = ''PUT'', Target = target_put,
                          Headers = [''Content-Type'' \<mapsto> [''application/x-www-form-urlencoded'']],
                          Body = Some (Values_Encode E (read_values s ps))\<rparr>) = rq"
    using nonIdempotentRequest_run [OF that(1,2,3) refl, of "''PUT''" ps] that(4)
    by (simp add: Put_def)
  have run_delete: "dispatched (snd (Delete E c URI s)) = dispatched s @ [rq]"
    if "urls s URI = Some ref"
      and "Scheme ref \<noteq> [] \<or> urls s (BaseURL c) \<noteq> None"
      and "url_Parse E (URL_String E (URL_ResolveReference E (urls s (BaseURL c)) ref))
            = Inr target_delete"
      and "fst (Signer c \<lparr>Method = ''DELETE'', Target = target_delete, Headers = Map.empty,
                          Body = Some []\<rparr>) = rq"
    using Delete_run [OF that(1,2,3) refl] that(4) by simp
  have sub: "sublist (Status resp) message"
    unfolding assms(3) by (rule sublist_appendI)
  show ?thesis
  proof (intro conjI)
    show "dispatched (snd (Get E c URI operation ps s)) = dispatched s @ [rq] \<longrightarrow>
            fst (Get E c URI operation ps s) = Returns (Some body, expected)"
      using g by blast
    show "dispatched (snd (Post E c URI operation ps s)) = dispatched s @ [rq] \<longrightarrow>
            fst (Post E c URI operation ps s) = Returns (Some body, expected)"
      using po by blast
    show "dispatched (snd (Put E c URI ps s)) = dispatched s @ [rq] \<longrightarrow>
            fst (Put E c URI ps s) = Returns (Some body, expected)"
      using pu by blast
    show "dispatched (snd (Delete E c URI s)) = dispatched s @ [rq] \<longrightarrow>
            fst (Delete E c URI s) = Returns expected"
      using d by blast
    show "sublist (Status resp) message"
      by (fact sub)
  qed (use g po pu d run_get run_post run_put run_delete in blast)+
qed

theorem status_classification_witness:
  "fst (Get (test_env (Inr (test_response 404 ''404 Not Found''))) test_client 1 ''list'' 4 test_state)
     = Returns (Some ''payload'', Some (errorString ''Error requesting the MAAS server: 404 Not Found.'')) \<and>
   dispatched (snd (Get (test_env (Inr (test_response 404 ''404 Not Found''))) test_client 1 ''list'' 4 test_state))
     = dispatched test_state @
       [\<lparr>Method = ''GET'', Target = test_URL\<lparr>Path := ''/api/nodes/'', RawQuery := ''name=n1&op=list''\<rparr>,
         Headers = Map.empty, Body = None\<rparr>] \<and>
   fst (Post (test_env (Inr (test_response 200 ''200 OK''))) test_client 1 ''start'' 4 test_state)
     = Returns (Some ''payload'', None) \<and>
   dispatched (snd (Post (test_env (Inr (test_response 200 ''200 OK''))) test_client 1 ''start'' 4 test_state))
     = dispatched test_state @
       [\<lparr>Method = ''POST'', Target = test_URL\<lparr>Path := ''/api/nodes/'', RawQuery := ''op=start''\<rparr>,
         Headers = [''Content-Type'' \<mapsto> [''application/x-www-form-urlencoded'']],
         Body = Some ''name=n1''\<rparr>] \<and>
   fst (Put (test_env (Inr (test_response 500 ''500 Internal Server Error''))) test_client 1 4 test_state)
     = Returns (Some ''payload'',
         Some (errorString ''Error requesting the MAAS server: 500 Internal Server Error.'')) \<and>
   dispatched (snd (Put (test_env (Inr (test_response 500 ''500 Internal Server Error''))) test_client 1 4 test_state))
     = dispatched test_state @
       [\<lparr>Method = ''PUT'', Target = test_URL\<lparr>Path := ''/api/nodes/'', RawQuery := ''x=1''\<rparr>,
         Headers = [''Content-Type'' \<mapsto> [''application/x-www-form-urlencoded'']],
         Body = Some ''name=n1''\<rparr>] \<and>
   fst (Delete (test_env (Inr (test_response 204 ''204 No Content''))) test_client 1 test_state)
     = Returns None \<and>
   dispatched (snd (Delete (test_env (Inr (test_response 204 ''204 No Content''))) test_client 1 test_state))
     = dispatched test_state @
       [\<lparr>Method = ''DELETE'', Target = test_URL\<lparr>Path := ''/api/nodes/'', RawQuery := ''x=1''\<rparr>,
         Headers = Map.empty, Body = Some []\<rparr>]"
proof -
  let ?ref = "test_URL\<lparr>Path := ''nodes/'', RawQuery := ''x=1''\<rparr>"
  have body: "ReadAll_Body (test_response code line) = (''payload'', None)" for code line
    by (simp add: test_response_def)
  have transport: "httpClient_Do (test_env answer) request = answer" for answer request
    by (simp add: test_env_def)
  let ?Eg = "test_env (Inr (test_response 404 ''404 Not Found''))"
  let ?tg = "test_URL\<lparr>Path := ''/api/nodes/'', RawQuery := ''name=n1&op=list''\<rparr>"
  let ?rg = "\<lparr>Method = ''GET'', Target = ?tg, Headers = Map.empty, Body = None\<rparr>"
  from status_classification [where E = ?Eg and rq = ?rg and c = test_client and URI = 1
      and operation = "''list''" and ps = 4 and s = test_state and ref = ?ref
      and target_get = ?tg, OF transport body refl refl]
  have g: "fst (Get ?Eg test_client 1 ''list'' 4 test_state)
       = Returns (Some ''payload'', Some (errorString ''Error requesting the MAAS server: 404 Not Found.'')) \<and>
     dispatched (snd (Get ?Eg test_client 1 ''list'' 4 test_state)) = dispatched test_state @ [?rg]"
    by (simp add: test_defs)
  let ?Epo = "test_env (Inr (test_response 200 ''200 OK''))"
  let ?tpo = "test_URL\<lparr>Path := ''/api/nodes/'', RawQuery := ''op=start''\<rparr>"
  let ?rpo = "\<lparr>Method = ''POST'', Target = ?tpo,
         Headers = [''Content-Type'' \<mapsto> [''application/x-www-form-urlencoded'']],
         Body = Some ''name=n1''\<rparr>"
  from status_classification [where E = ?Epo and rq = ?rpo and c = test_client and URI = 1
      and operation = "''start''" and ps = 4 and s = test_state and ref = ?ref
      and target_post = ?tpo, OF transport body refl refl]
  have po: "fst (Post ?Epo test_client 1 ''start'' 4 test_state) = Returns (Some ''payload'', None) \<and>
     dispatched (snd (Post ?Epo test_client 1 ''start'' 4 test_state)) = dispatched test_state @ [?rpo]"
    by (simp add: test_defs)
  let ?Epu = "test_env (Inr (test_response 500 ''500 Internal Server Error''))"
  let ?tpu = "test_URL\<lparr>Path := ''/api/nodes/'', RawQuery := ''x=1''\<rparr>"
  let ?rpu = "\<lparr>Method = ''PUT'', Target = ?tpu,
         Headers = [''Content-Type'' \<mapsto> [''application/x-www-form-urlencoded'']],
         Body = Some ''name=n1''\<rparr>"
  from status_classification [where E = ?Epu and rq = ?rpu and c = test_client and URI = 1
      and ps = 4 and s = test_state and ref = ?ref and target_put = ?tpu,
      OF transport body refl refl]
  have pu: "fst (Put ?Epu test_client 1 4 test_state)
       = Returns (Some ''payload'',
           Some (errorString ''Error requesting the MAAS server: 500 Internal Server Error.'')) \<and>
     dispatched (snd (Put ?Epu test_client 1 4 test_state)) = dispatched test_state @ [?rpu]"
    by (simp add: test_defs)
  let ?Ed = "test_env (Inr (test_response 204 ''204 No Content''))"
  let ?rd = "\<lparr>Method = ''DELETE'', Target = ?tpu, Headers = Map.empty, Body = Some []\<rparr>"
  from status_classification [where E = ?Ed and rq = ?rd and c = test_client and URI = 1
      and s = test_state and ref = ?ref and target_delete = ?tpu,
      OF transport body refl refl]
  have d: "fst (Delete ?Ed test_client 1 test_state) = Returns None \<and>
     dispatched (snd (Delete ?Ed test_client 1 test_state)) = dispatched test_state @ [?rd]"
    by (simp add: test_defs)
  from g po pu d show ?thesis by blast
qed

subsection \<open>Transport failures\<close>

text \<open>
  C7. For every verb call in which the underlying HTTP transport fails (the transport
  returns an error for the request \<open>rq\<close> the call handed it, or reading the body of the
  response fails), that error is what the caller gets, with no body bytes (a nil body; for
  Delete, the error alone). And the transport is reached: a call that gets past its own
  steps (as for C1) hands the request it has built, signed, to the transport, as the one
  request it dispatches, and returns the transport's error.
\<close>

theorem transport_failure:
  assumes "httpClient_Do E rq = Inl e \<or>
           (httpClient_Do E rq = Inr resp \<and> ReadAll_Body resp = (partial, Some e))"
  shows "(dispatched (snd (Get E c URI operation ps s)) = dispatched s @ [rq] \<longrightarrow>
            fst (Get E c URI operation ps s) = Returns (None, Some (foreignError e))) \<and>
         (dispatched (snd (Post E c URI operation ps s)) = dispatched s @ [rq] \<longrightarrow>
            fst (Post E c URI operation ps s) = Returns (None, Some (foreignError e))) \<and>
         (dispatched (snd (Put E c URI ps s)) = dispatched s @ [rq] \<longrightarrow>
            fst (Put E c URI ps s) = Returns (None, Some (foreignError e))) \<and>
         (dispatched (snd (Delete E c URI s)) = dispatched s @ [rq] \<longrightarrow>
            fst (Delete E c URI s) = Returns (Some (foreignError e))) \<and>
         (Values_Get (read_values s ps) ''op'' = [] \<and>
          (operation = [] \<or> vals s ps \<noteq> None) \<and>
          urls s URI = Some ref \<and>
          (Scheme ref \<noteq> [] \<or> urls s (BaseURL c) \<noteq> None) \<and>
          url_Parse E (URL_String E ((URL_ResolveReference E (urls s (BaseURL c)) ref)
            \<lparr>RawQuery := Values_Encode E
               (if operation \<noteq> [] then (read_values s ps)(''op'' \<mapsto> [operation])
                else read_values s ps)\<rparr>)) = Inr target_get \<and>
          fst (Signer c \<lparr>Method = ''GET'', Target = target_get, Headers = Map.empty,
                          Body = None\<rparr>) = rq \<longrightarrow>
            fst (Get E c URI operation ps s) = Returns (None, Some (foreignError e)) \<and>
            dispatched (snd (Get E c URI operation ps s)) = dispatched s @ [rq]) \<and>
         (urls s URI = Some ref \<and>
          (Scheme ref \<noteq> [] \<or> BaseURL c = URI \<or> urls s (BaseURL c) \<noteq> None) \<and>
          url_Parse E (URL_String E (URL_ResolveReference E
            (if BaseURL c = URI
             then Some (ref\<lparr>RawQuery := Values_Encode E [''op'' \<mapsto> [operation]]\<rparr>)
             else urls s (BaseURL c))
            (ref\<lparr>RawQuery := Values_Encode E [''op'' \<mapsto> [operation]]\<rparr>))) = Inr target_post \<and>
          fst (Signer c \<lparr>Method = ''POST'', Target = target_post,
                          Headers = [''Content-Type'' \<mapsto> [''application/x-www-form-urlencoded'']],
                          Body = Some (Values_Encode E (read_values s ps))\<rparr>) = rq \<longrightarrow>
            fst (Post E c URI operation ps s) = Returns (None, Some (foreignError e)) \<and>
            dispatched (snd (Post E c URI operation ps s)) = dispatched s @ [rq]) \<and>
         (urls s URI = Some ref \<and>
          (Scheme ref \<noteq> [] \<or> urls s (BaseURL c) \<noteq> None) \<and>
          url_Parse E (URL_String E (URL_ResolveReference E (urls s (BaseURL c)) ref))
            = Inr target_put \<and>
          fst (Signer c \<lparr>Method = ''PUT'', Target = target_put,
                          Headers = [''Content-Type'' \<mapsto> [''application/x-www-form-urlencoded'']],
                          Body = Some (Values_Encode E (read_values s ps))\<rparr>) = rq \<longrightarrow>
            fst (Put E c URI ps s) = Returns (None, Some (foreignError e)) \<and>
            dispatched (snd (Put E c URI ps s)) = dispatched s @ [rq]) \<and>
         (urls s URI = Some ref \<and>
          (Scheme ref \<noteq> [] \<or> urls s (BaseURL c) \<noteq> None) \<and>
          url_Parse E (URL_String E (URL_ResolveReference E (urls s (BaseURL c)) ref))
            = Inr target_delete \<and>
          fst (Signer c \<lparr>Method = ''DELETE'', Target = target_delete, Headers = Map.empty,
                          Body = Some []\<rparr>) = rq \<longrightarrow>
            fst (Delete E c URI s) = Returns (Some (foreignError e)) \<and>
            dispatched (snd (Delete E c URI s)) = dispatched s @ [rq])"
proof -
  have disp: "fst (dispatchRequest E c request s1) = (None, Some (foreignError e))"
    if "fst (Signer c request) = rq" for request s1
    using dispatchRequest_fails [of E c request e resp partial s1] assms that by simp
  have g: "fst (Get E c URI operation ps s) = Returns (None, Some (foreignError e))"
    if "dispatched (snd (Get E c URI operation ps s)) = dispatched s @ [rq]"
    using Get_dispatch [OF that] disp by auto
  have po: "fst (Post E c URI operation ps s) = Returns (None, Some (foreignError e))"
    if "dispatched (snd (Post E c URI operation ps s)) = dispatched s @ [rq]"
    using Post_dispatch [OF that] disp by auto
  have pu: "fst (Put E c URI ps s) = Returns (None, Some (foreignError e))"
    if "dispatched (snd (Put E c URI ps s)) = dispatched s @ [rq]"
    using nonIdempotentRequest_dispatch [of E c "''PUT''" URI ps s rq] that disp
    by (auto simp add: Put_def)
  have d: "fst (Delete E c URI s) = Returns (Some (foreignError e))"
    if "dispatched (snd (Delete E c URI s)) = dispatched s @ [rq]"
    using Delete_dispatch [OF that] disp by auto
  have run_get: "dispatched (snd (Get E c URI operation ps s)) = dispatched s @ [rq]"
    if "Values_Get (read_values s ps) ''op'' = []"
      and "operation = [] \<or> vals s ps \<noteq> None"
      and "urls s URI = Some ref"
      and "Scheme ref \<noteq> [] \<or> urls s (BaseURL c) \<noteq> None"
      and "url_Parse E (URL_String E ((URL_ResolveReference E (urls s (BaseURL c)) ref)
            \<lparr>RawQuery := Values_Encode E
               (if operation \<noteq> [] then (read_values s ps)(''op'' \<mapsto> [operation])
                else read_values s ps)\<rparr>)) = Inr target_get"
      and "fst (Signer c \<lparr>Method = ''GET'', Target = target_get, Headers = Map.empty,
                          Body = None\<rparr>) = rq"
    using Get_run [OF that(1,2,3,4) refl that(5) refl] that(6) by simp
  have run_post: "dispatched (snd (Post E c URI operation ps s)) = dispatched s @ [rq]"
    if "urls s URI = Some ref"
      and "Scheme ref \<noteq> [] \<or> BaseURL c = URI \<or> urls s (BaseURL c) \<noteq> None"
      and "url_Parse E (URL_String E (URL_ResolveReference E
            (if BaseURL c = URI
             then Some (ref\<lparr>RawQuery := Values_Encode E [''op'' \<mapsto> [operation]]\<rparr>)
             else urls s (BaseURL c))
            (ref\<lparr>RawQuery := Values_Encode E [''op'' \<mapsto> [operation]]\<rparr>))) = Inr target_post"
      and "fst (Signer c \<lparr>Method = ''POST'', Target = target_post,
                          Headers = [''Content-Type'' \<mapsto> [''application/x-www-form-urlencoded'']],
                          Body = Some (Values_Encode E (read_values s ps))\<rparr>) = rq"
    using Post_run [OF that(1) refl that(2,3) refl] that(4) by simp
  have run_put: "dispatched (snd (Put E c URI ps s)) = dispatched s @ [rq]"
    if "urls s URI = Some ref"
      and "Scheme ref \<noteq> [] \<or> urls s (BaseURL c) \<noteq> None"
      and "url_Parse E (URL_String E (URL_ResolveReference E (urls s (BaseURL c)) ref))
            = Inr target_put"
      and "fst (Signer c \<lparr>Method = ''PUT'', Target = target_put,
                          Headers = [''Content-Type'' \<mapsto> [''application/x-www-form-urlencoded'']],
                          Body = Some (Values_Encode E (read_values s ps))\<rparr>) = rq"
    using nonIdempotentRequest_run [OF that(1,2,3) refl, of "''PUT''" ps] that(4)
    by (simp add: Put_def)
  have run_delete: "dispatched (snd (Delete E c URI s)) = dispatched s @ [rq]"
    if "urls s URI = Some ref"
      and "Scheme ref \<noteq> [] \<or> urls s (BaseURL c) \<noteq> None"
      and "url_Parse E (URL_String E (URL_ResolveReference E (urls s (BaseURL c)) ref))
            = Inr target_delete"
      and "fst (Signer c \<lparr>Method = ''DELETE'', Target = target_delete, Headers = Map.empty,
                          Body = Some []\<rparr>) = rq"
    using Delete_run [OF that(1,2,3) refl] that(4) by simp
  show ?thesis
  proof (intro conjI)
    show "dispatched (snd (Get E c URI operation ps s)) = dispatched s @ [rq] \<longrightarrow>
            fst (Get E c URI operation ps s) = Returns (None, Some (foreignError e))"
      using g by blast
    show "dispatched (snd (Post E c URI operation ps s)) = dispatched s @ [rq] \<longrightarrow>
            fst (Post E c URI operation ps s) = Returns (None, Some (foreignError e))"
      using po by blast
    show "dispatched (snd (Put E c URI ps s)) = dispatched s @ [rq] \<longrightarrow>
            fst (Put E c URI ps s) = Returns (None, Some (foreignError e))"
      using pu by blast
    show "dispatched (snd (Delete E c URI s)) = dispatched s @ [rq] \<longrightarrow>
            fst (Delete E c URI s) = Returns (Some (foreignError e))"
      using d by blast
  qed (use g po pu d run_get run_post run_put run_delete in blast)+
qed


theorem transport_failure_witness:
  "fst (Get (test_env (Inl ''connection refused'')) test_client 1 ''list'' 4 test_state)
     = Returns (None, Some (foreignError ''connection refused'')) \<and>
   dispatched (snd (Get (test_env (Inl ''connection refused'')) test_client 1 ''list'' 4 test_state))
     = dispatched test_state @
       [\<lparr>Method = ''GET'', Target = test_URL\<lparr>Path := ''/api/nodes/'', RawQuery := ''name=n1&op=list''\<rparr>,
         Headers = Map.empty, Body = None\<rparr>] \<and>
   fst (Post (test_env (Inl ''connection refused'')) test_client 1 ''start'' 4 test_state)
     = Returns (None, Some (foreignError ''connection refused'')) \<and>
   dispatched (snd (Post (test_env (Inl ''connection refused'')) test_client 1 ''start'' 4 test_state))
     = dispatched test_state @
       [\<lparr>Method = ''POST'', Target = test_URL\<lparr>Path := ''/api/nodes/'', RawQuery := ''op=start''\<rparr>,
         Headers = [''Content-Type'' \<mapsto> [''application/x-www-form-urlencoded'']],
         Body = Some ''name=n1''\<rparr>] \<and>
   fst (Put (test_env (Inr \<lparr>StatusCode = 200, Status = ''200 OK'',
                             ReadAll_Body = (''pay'', Some ''unexpected EOF'')\<rparr>))
          test_client 1 4 test_state)
     = Returns (None, Some (foreignError ''unexpected EOF'')) \<and>
   dispatched (snd (Put (test_env (Inr \<lparr>StatusCode = 200, Status = ''200 OK'',
                                         ReadAll_Body = (''pay'', Some ''unexpected EOF'')\<rparr>))
          test_client 1 4 test_state))
     = dispatched test_state @
       [\<lparr>Method = ''PUT'', Target = test_URL\<lparr>Path := ''/api/nodes/'', RawQuery := ''x=1''\<rparr>,
         Headers = [''Content-Type'' \<mapsto> [''application/x-www-form-urlencoded'']],
         Body = Some ''name=n1''\<rparr>] \<and>
   fst (Delete (test_env (Inr \<lparr>StatusCode = 200, Status = ''200 OK'',
                                ReadAll_Body = (''pay'', Some ''unexpected EOF'')\<rparr>))
          test_client 1 test_state)
     = Returns (Some (foreignError ''unexpected EOF'')) \<and>
   dispatched (snd (Delete (test_env (Inr \<lparr>StatusCode = 200, Status = ''200 OK'',
                                            ReadAll_Body = (''pay'', Some ''unexpected EOF'')\<rparr>))
          test_client 1 test_state))
     = dispatched test_state @
       [\<lparr>Method = ''DELETE'', Target = test_URL\<lparr>Path := ''/api/nodes/'', RawQuery := ''x=1''\<rparr>,
         Headers = Map.empty, Body = Some []\<rparr>]"
proof -
  let ?ref = "test_URL\<lparr>Path := ''nodes/'', RawQuery := ''x=1''\<rparr>"
  let ?resp = "\<lparr>StatusCode = 200, Status = ''200 OK'', ReadAll_Body = (''pay'', Some ''unexpected EOF'')\<rparr>"
  let ?Ec = "test_env (Inl ''connection refused'')"
  let ?Er = "test_env (Inr ?resp)"
  have refused: "httpClient_Do ?Ec request = Inl ''connection refused'' \<or>
      (httpClient_Do ?Ec request = Inr resp \<and> ReadAll_Body resp = (partial, Some ''connection refused''))"
    for request resp partial
    by (simp add: test_env_def)
  have cut: "httpClient_Do ?Er request = Inl ''unexpected EOF'' \<or>
      (httpClient_Do ?Er request = Inr ?resp \<and> ReadAll_Body ?resp = (''pay'', Some ''unexpected EOF''))"
    for request
    by (simp add: test_env_def)
  let ?tg = "test_URL\<lparr>Path := ''/api/nodes/'', RawQuery := ''name=n1&op=list''\<rparr>"
  let ?rg = "\<lparr>Method = ''GET'', Target = ?tg, Headers = Map.empty, Body = None\<rparr>"
  from transport_failure [where E = ?Ec and rq = ?rg and c = test_client and URI = 1
      and operation = "''list''" and ps = 4 and s = test_state and ref = ?ref
      and target_get = ?tg, OF refused]
  have g: "fst (Get ?Ec test_client 1 ''list'' 4 test_state)
       = Returns (None, Some (foreignError ''connection refused'')) \<and>
     dispatched (snd (Get ?Ec test_client 1 ''list'' 4 test_state)) = dispatched test_state @ [?rg]"
    by (simp add: test_defs)
  let ?tpo = "test_URL\<lparr>Path := ''/api/nodes/'', RawQuery := ''op=start''\<rparr>"
  let ?rpo = "\<lparr>Method = ''POST'', Target = ?tpo,
         Headers = [''Content-Type'' \<mapsto> [''application/x-www-form-urlencoded'']],
         Body = Some ''name=n1''\<rparr>"
  from transport_failure [where E = ?Ec and rq = ?rpo and c = test_client and URI = 1
      and operation = "''start''" and ps = 4 and s = test_state and ref = ?ref
      and target_post = ?tpo, OF refused]
  have po: "fst (Post ?Ec test_client 1 ''start'' 4 test_state)
       = Returns (None, Some (foreignError ''connection refused'')) \<and>
     dispatched (snd (Post ?Ec test_client 1 ''start'' 4 test_state)) = dispatched test_state @ [?rpo]"
    by (simp add: test_defs)
  let ?tpu = "test_URL\<lparr>Path := ''/api/nodes/'', RawQuery := ''x=1''\<rparr>"
  let ?rpu = "\<lparr>Method = ''PUT'', Target = ?tpu,
         Headers = [''Content-Type'' \<mapsto> [''application/x-www-form-urlencoded'']],
         Body = Some ''name=n1''\<rparr>"
  from transport_failure [where E = ?Er and rq = ?rpu and c = test_client and URI = 1
      and ps = 4 and s = test_state and ref = ?ref and target_put = ?tpu, OF cut]
  have pu: "fst (Put ?Er test_client 1 4 test_state)
       = Returns (None, Some (foreignError ''unexpected EOF'')) \<and>
     dispatched (snd (Put ?Er test_client 1 4 test_state)) = dispatched test_state @ [?rpu]"
    by (simp add: test_defs)
  let ?rd = "\<lparr>Method = ''DELETE'', Target = ?tpu, Headers = Map.empty, Body = Some []\<rparr>"
  from transport_failure [where E = ?Er and rq = ?rd and c = test_client and URI = 1
      and s = test_state and ref = ?ref and target_delete = ?tpu, OF cut]
  have d: "fst (Delete ?Er test_client 1 test_state)
       = Returns (Some (foreignError ''unexpected EOF'')) \<and>
     dispatched (snd (Delete ?Er test_client 1 test_state)) = dispatched test_state @ [?rd]"
    by (simp add: test_defs)
  from g po pu d show ?thesis by blast
qed

subsection \<open>The reserved parameter\<close>

text \<open>
  C2 says that \<^verbatim>\<open>Get\<close> fails, without network activity, for every parameter set that
  contains the key \<^verbatim>\<open>op\<close>. The guard of \<^verbatim>\<open>Get\<close> is \<^verbatim>\<open>parameters.Get("op") != ""\<close>:
  a parameter set that holds \<^verbatim>\<open>op\<close> with an empty first value (or with no value) passes
  it. On the test transport, with \<^verbatim>\<open>{"op": {""}}\<close> and the operation \<^verbatim>\<open>list\<close>, the call
  succeeds and one request goes out.
\<close>

theorem Get_reserved_parameter_counterexample:
  "[''op'' \<mapsto> [[]]] ''op'' \<noteq> None \<and>
   vals test_state 3 = Some [''op'' \<mapsto> [[]]] \<and>
   fst (Get (test_env (Inr (test_response 200 ''200 OK''))) test_client 1 ''list'' 3 test_state)
     = Returns (Some ''payload'', None) \<and>
   dispatched (snd (Get (test_env (Inr (test_response 200 ''200 OK''))) test_client 1 ''list'' 3 test_state))
     = [\<lparr>Method = ''GET'', Target = test_URL\<lparr>Path := ''/api/nodes/'', RawQuery := ''op=list''\<rparr>,
         Headers = Map.empty, Body = None\<rparr>]"
  by (simp add: run_defs dispatchRequest_def sdiv_100_eq_2)

text \<open>
  C2, amended. For every parameter set whose first value under the key \<^verbatim>\<open>op\<close> is a
  non-empty string, \<^verbatim>\<open>Get\<close> fails with the reserved-parameter error and returns no
  body, and the state is the one it started in: no request is dispatched and nothing is
  written.
\<close>

theorem Get_reserved_parameter:
  assumes "Values_Get (read_values s parameters) ''op'' \<noteq> []"
  shows "Get E client URI operation parameters s =
           (Returns (None, Some (errorString reserved_parameter_message)), s)"
  using assms by (simp add: Get_def)

theorem Get_reserved_parameter_witness:
  "Values_Get (read_values (test_state\<lparr>vals := [3 \<mapsto> [''op'' \<mapsto> [''list'']]]\<rparr>) 3) ''op'' \<noteq> [] \<and>
   Get (test_env (Inr (test_response 200 ''200 OK''))) test_client 1 ''start'' 3
       (test_state\<lparr>vals := [3 \<mapsto> [''op'' \<mapsto> [''list'']]]\<rparr>) =
     (Returns (None, Some (errorString reserved_parameter_message)),
      test_state\<lparr>vals := [3 \<mapsto> [''op'' \<mapsto> [''list'']]]\<rparr>) \<and>
   dispatched (test_state\<lparr>vals := [3 \<mapsto> [''op'' \<mapsto> [''list'']]]\<rparr>) = []"
proof -
  let ?s = "test_state\<lparr>vals := [3 \<mapsto> [''op'' \<mapsto> [''list'']]]\<rparr>"
  have h: "Values_Get (read_values ?s 3) ''op'' \<noteq> []"
    by (simp add: read_values_def Values_Get_def)
  from Get_reserved_parameter [OF h] h show ?thesis
    by (simp add: test_state_def)
qed

subsection \<open>The request of Get\<close>

text \<open>
  C5. For every Get call that passes the reserved-key check (and does not panic: the two
  URL pointers are not nil, and the parameter map is not nil when there is an operation
  to store): if the operation string is non-empty it is stored in the query parameters
  under the key \<^verbatim>\<open>op\<close>, and if it is empty the parameters are as they were; the URL string
  the request is built from is the resource URI resolved against the client's base
  address, with the encoded parameters as its raw query. When that string parses, the
  request with that target, signed, is what goes to the transport; when it does not, the
  parse error is returned and nothing is dispatched.
\<close>

theorem Get_request:
  assumes "Values_Get (read_values s parameters) ''op'' = []"
    and "operation = [] \<or> vals s parameters \<noteq> None"
    and "urls s (BaseURL client) = Some base"
    and "urls s URI = Some ref"
    and "query = (if operation \<noteq> [] then (read_values s parameters)(''op'' \<mapsto> [operation])
                  else read_values s parameters)"
    and "urlStr =
           URL_String E ((URL_ResolveReference E (Some base) ref)\<lparr>RawQuery := Values_Encode E query\<rparr>)"
  shows "read_values (snd (Get E client URI operation parameters s)) parameters = query \<and>
         (operation \<noteq> [] \<longrightarrow> query ''op'' = Some [operation]) \<and>
         (operation = [] \<longrightarrow> query = read_values s parameters) \<and>
         (case url_Parse E urlStr of
            Inl err \<Rightarrow>
              fst (Get E client URI operation parameters s) = Returns (None, Some (foreignError err)) \<and>
              dispatched (snd (Get E client URI operation parameters s)) = dispatched s
          | Inr target \<Rightarrow>
              dispatched (snd (Get E client URI operation parameters s)) =
                dispatched s @
                  [fst (Signer client
                     \<lparr>Method = ''GET'', Target = target, Headers = Map.empty, Body = None\<rparr>)])"
proof (cases "operation = []")
  case True
  with assms show ?thesis
    by (simp add: Get_def Let_def split_beta dispatchRequest_state GetURL_def http_NewRequest_def
        read_values_def split: sum.splits)
next
  case False
  with assms(2) obtain v where v: "vals s parameters = Some v" by auto
  with False assms(1,3,4,5,6) show ?thesis
    by (simp add: Get_def Let_def split_beta dispatchRequest_state GetURL_def http_NewRequest_def
        read_values_def Values_Set_def split: sum.splits)
qed

theorem Get_request_witness:
  "Values_Get (read_values test_state 4) ''op'' = [] \<and>
   vals test_state 4 \<noteq> None \<and>
   urls test_state (BaseURL test_client) = Some test_URL \<and>
   urls test_state 1 = Some (test_URL\<lparr>Path := ''nodes/'', RawQuery := ''x=1''\<rparr>) \<and>
   read_values (snd (Get (test_env (Inr (test_response 200 ''200 OK''))) test_client 1 ''list'' 4 test_state)) 4
     = [''name'' \<mapsto> [''n1''], ''op'' \<mapsto> [''list'']] \<and>
   dispatched (snd (Get (test_env (Inr (test_response 200 ''200 OK''))) test_client 1 ''list'' 4 test_state))
     = [\<lparr>Method = ''GET'',
         Target = test_URL\<lparr>Path := ''/api/nodes/'', RawQuery := ''name=n1&op=list''\<rparr>,
         Headers = Map.empty, Body = None\<rparr>] \<and>
   read_values (snd (Get (test_env (Inr (test_response 200 ''200 OK''))) test_client 1 [] 4 test_state)) 4
     = [''name'' \<mapsto> [''n1'']] \<and>
   dispatched (snd (Get (test_env (Inr (test_response 200 ''200 OK''))) test_client 1 [] 4 test_state))
     = [\<lparr>Method = ''GET'',
         Target = test_URL\<lparr>Path := ''/api/nodes/'', RawQuery := ''name=n1''\<rparr>,
         Headers = Map.empty, Body = None\<rparr>]"
proof -
  let ?E = "test_env (Inr (test_response 200 ''200 OK''))"
  let ?ref = "test_URL\<lparr>Path := ''nodes/'', RawQuery := ''x=1''\<rparr>"
  have h1: "Values_Get (read_values test_state 4) ''op'' = []"
    by (simp add: read_values_def Values_Get_def test_state_def)
  have h2: "vals test_state 4 \<noteq> None"
    by (simp add: test_state_def)
  have h3: "urls test_state (BaseURL test_client) = Some test_URL"
    by (simp add: test_state_def test_client_def)
  have h4: "urls test_state 1 = Some ?ref"
    by (simp add: test_state_def)
  have rv: "read_values test_state 4 = [''name'' \<mapsto> [''n1'']]"
    by (simp add: read_values_def test_state_def)
  have ds: "dispatched test_state = []"
    by (simp add: test_state_def)
  have sg: "Signer test_client = anonSigner_OAuthSign"
    by (simp add: test_client_def)
  from Get_request [where operation = "''list''" and E = "?E", OF h1 disjI2 [OF h2] h3 h4 refl refl]
  have a: "read_values (snd (Get ?E test_client 1 ''list'' 4 test_state)) 4
             = [''name'' \<mapsto> [''n1''], ''op'' \<mapsto> [''list'']] \<and>
           dispatched (snd (Get ?E test_client 1 ''list'' 4 test_state))
             = [\<lparr>Method = ''GET'',
                 Target = test_URL\<lparr>Path := ''/api/nodes/'', RawQuery := ''name=n1&op=list''\<rparr>,
                 Headers = Map.empty, Body = None\<rparr>]"
    by (simp add: rv ds sg Values_Get_def test_env_def test_URL_def anonSigner_OAuthSign_def)
  from Get_request [where operation = "[]" and E = "?E", OF h1 disjI1 [OF refl] h3 h4 refl refl]
  have b: "read_values (snd (Get ?E test_client 1 [] 4 test_state)) 4 = [''name'' \<mapsto> [''n1'']] \<and>
           dispatched (snd (Get ?E test_client 1 [] 4 test_state))
             = [\<lparr>Method = ''GET'',
                 Target = test_URL\<lparr>Path := ''/api/nodes/'', RawQuery := ''name=n1''\<rparr>,
                 Headers = Map.empty, Body = None\<rparr>]"
    by (simp add: rv ds sg Values_Get_def test_env_def test_URL_def anonSigner_OAuthSign_def)
  from h1 h2 h3 h4 a b show ?thesis by blast
qed

text \<open>
  C10. For every Get call with a non-empty operation string that passes the reserved-key
  check, the parameter map the caller passed is written in place: after the call it holds
  the key \<^verbatim>\<open>op\<close> with the operation string as its value.
\<close>

theorem Get_mutates_parameters:
  assumes "vals s parameters = Some v"
    and "Values_Get v ''op'' = []"
    and "operation \<noteq> []"
  shows "vals (snd (Get E client URI operation parameters s)) parameters
           = Some (v(''op'' \<mapsto> [operation])) \<and>
         Values_Get (v(''op'' \<mapsto> [operation])) ''op'' = operation"
  using assms
  by (simp add: Get_def Let_def split_beta dispatchRequest_state read_values_def Values_Set_def
      Values_Get_def split: outcome.splits sum.splits)

theorem Get_mutates_parameters_witness:
  "vals test_state 4 = Some [''name'' \<mapsto> [''n1'']] \<and>
   Values_Get [''name'' \<mapsto> [''n1'']] ''op'' = [] \<and>
   ''list'' \<noteq> [] \<and>
   vals (snd (Get (test_env (Inr (test_response 200 ''200 OK''))) test_client 1 ''list'' 4 test_state)) 4
     = Some [''name'' \<mapsto> [''n1''], ''op'' \<mapsto> [''list'']]"
proof -
  have h1: "vals test_state 4 = Some [''name'' \<mapsto> [''n1'']]"
    by (simp add: test_state_def)
  have h2: "Values_Get [''name'' \<mapsto> [''n1'']] ''op'' = []"
    by (simp add: Values_Get_def)
  have h3: "''list'' \<noteq> []"
    by simp
  from Get_mutates_parameters [where E = "test_env (Inr (test_response 200 ''200 OK''))"
      and client = test_client and URI = 1, OF h1 h2 h3] h1 h2 h3 show ?thesis
    by simp
qed

subsection \<open>The request of Post\<close>

text \<open>
  C9. For every Post call, the URI object the caller passed is written in place: its raw
  query becomes the encoding of the single pair \<^verbatim>\<open>op=<operation>\<close>, whatever query it had,
  and that is what the store holds at the URI's address after the call; no other URL
  object changes.
\<close>

theorem Post_mutates_URI:
  assumes "urls s URI = Some u"
  shows "urls (snd (Post E client URI operation parameters s)) =
           (urls s)(URI \<mapsto> u\<lparr>RawQuery := Values_Encode E [''op'' \<mapsto> [operation]]\<rparr>)"
  using assms by (simp add: Post_def nonIdempotentRequest_store)

theorem Post_mutates_URI_witness:
  "urls test_state 1 = Some (test_URL\<lparr>Path := ''nodes/'', RawQuery := ''x=1''\<rparr>) \<and>
   urls (snd (Post (test_env (Inr (test_response 200 ''200 OK''))) test_client 1 ''start'' 4 test_state)) 1
     = Some (test_URL\<lparr>Path := ''nodes/'', RawQuery := ''op=start''\<rparr>)"
proof -
  have h: "urls test_state 1 = Some (test_URL\<lparr>Path := ''nodes/'', RawQuery := ''x=1''\<rparr>)"
    by (simp add: test_state_def)
  from Post_mutates_URI [where E = "test_env (Inr (test_response 200 ''200 OK''))"
      and client = test_client and operation = "''start''" and parameters = 4, OF h] h
  show ?thesis
    by (simp add: test_env_def Values_Get_def)
qed

text \<open>
  C6. For every Post call (with both URL pointers not nil, and a URL string that parses):
  the request that goes to the transport, after signing, has the method POST; its target
  is parsed from the string of the resource URI, whose raw query has been replaced by the
  encoding of \<^verbatim>\<open>op=<operation>\<close>, resolved against the base address; its body is the
  form-encoded parameters; and it carries the header
  \<^verbatim>\<open>Content-Type: application/x-www-form-urlencoded\<close>. When the URI is the client's base
  URL object itself, the base is resolved as overwritten.
\<close>

theorem Post_request:
  assumes "urls s URI = Some u"
    and "urls s (BaseURL client) = Some base"
    and "ref = u\<lparr>RawQuery := Values_Encode E [''op'' \<mapsto> [operation]]\<rparr>"
    and "base' = (if BaseURL client = URI then ref else base)"
    and "url_Parse E (URL_String E (URL_ResolveReference E (Some base') ref)) = Inr target"
  shows "dispatched (snd (Post E client URI operation parameters s)) =
           dispatched s @
             [fst (Signer client
                \<lparr>Method = ''POST'', Target = target,
                 Headers = [''Content-Type'' \<mapsto> [''application/x-www-form-urlencoded'']],
                 Body = Some (Values_Encode E (read_values s parameters))\<rparr>)]"
proof (cases "BaseURL client = URI")
  case True
  with assms have "url_Parse E (URL_String E (URL_ResolveReference E (Some ref) ref)) = Inr target"
    by simp
  with True assms(1,3) show ?thesis
    by (simp add: Post_def nonIdempotentRequest_def Let_def split_beta dispatchRequest_state
        GetURL_def http_NewRequest_def Header_Set_def read_values_def)
next
  case False
  with assms have "url_Parse E (URL_String E (URL_ResolveReference E (Some base) ref)) = Inr target"
    by simp
  with False assms(1,2,3) show ?thesis
    by (simp add: Post_def nonIdempotentRequest_def Let_def split_beta dispatchRequest_state
        GetURL_def http_NewRequest_def Header_Set_def read_values_def)
qed


theorem Post_request_witness:
  "urls test_state 1 = Some (test_URL\<lparr>Path := ''nodes/'', RawQuery := ''x=1''\<rparr>) \<and>
   urls test_state (BaseURL test_client) = Some test_URL \<and>
   dispatched (snd (Post (test_env (Inr (test_response 200 ''200 OK''))) test_client 1 ''start'' 4 test_state))
     = [\<lparr>Method = ''POST'',
         Target = test_URL\<lparr>Path := ''/api/nodes/'', RawQuery := ''op=start''\<rparr>,
         Headers = [''Content-Type'' \<mapsto> [''application/x-www-form-urlencoded'']],
         Body = Some ''name=n1''\<rparr>]"
proof -
  let ?E = "test_env (Inr (test_response 200 ''200 OK''))"
  let ?u = "test_URL\<lparr>Path := ''nodes/'', RawQuery := ''x=1''\<rparr>"
  let ?target = "test_URL\<lparr>Path := ''/api/nodes/'', RawQuery := ''op=start''\<rparr>"
  have h1: "urls test_state 1 = Some ?u"
    by (simp add: test_state_def)
  have h2: "urls test_state (BaseURL test_client) = Some test_URL"
    by (simp add: test_state_def test_client_def)
  have h3: "url_Parse ?E (URL_String ?E (URL_ResolveReference ?E
              (Some (if BaseURL test_client = 1
                     then ?u\<lparr>RawQuery := Values_Encode ?E [''op'' \<mapsto> [''start'']]\<rparr>
                     else test_URL))
              (?u\<lparr>RawQuery := Values_Encode ?E [''op'' \<mapsto> [''start'']]\<rparr>))) = Inr ?target"
    by (simp add: test_env_def test_client_def test_URL_def Values_Get_def)
  have rv: "read_values test_state 4 = [''name'' \<mapsto> [''n1'']]"
    by (simp add: read_values_def test_state_def)
  have ds: "dispatched test_state = []"
    by (simp add: test_state_def)
  have sg: "Signer test_client = anonSigner_OAuthSign"
    by (simp add: test_client_def)
  from Post_request [where parameters = 4, OF h1 h2 refl refl h3]
  have "dispatched (snd (Post ?E test_client 1 ''start'' 4 test_state))
     = [\<lparr>Method = ''POST'', Target = ?target,
         Headers = [''Content-Type'' \<mapsto> [''application/x-www-form-urlencoded'']],
         Body = Some ''name=n1''\<rparr>]"
    by (simp add: rv ds sg test_env_def anonSigner_OAuthSign_def Values_Get_def)
  with h1 h2 show ?thesis by blast
qed

subsection \<open>The authenticated client factory\<close>

text \<open>
  C3. For every apiKey string, \<^verbatim>\<open>NewAuthenticatedClient\<close> fails with the invalid-key
  error and returns no client exactly when the string does not split into three
  colon-separated fields, that is, when it does not contain exactly two colons. On that
  failure the state is untouched, whatever the URL library and the signer constructor
  are: neither is called, and nothing is dispatched.
\<close>

theorem NewAuthenticatedClient_invalid_key:
  "(NewAuthenticatedClient E NewPLAINTEXTOAuthSigner BaseURL' apiKey s =
      ((None, Some (errorString invalid_api_key_message)), s))
     = (count_list apiKey (CHR '':'') \<noteq> 2) \<and>
   (length (strings_Split apiKey (CHR '':'')) = 3) = (count_list apiKey (CHR '':'') = 2)"
  by (simp add: NewAuthenticatedClient_def Let_def length_strings_Split new_URL_def
      split: sum.splits)

theorem NewAuthenticatedClient_invalid_key_witness:
  "count_list ''ckey:tkey'' (CHR '':'') \<noteq> 2 \<and>
   NewAuthenticatedClient (test_env (Inl ''unreachable'')) (\<lambda>token realm. Inr anonSigner_OAuthSign)
       ''http://maas/api/'' ''ckey:tkey'' test_state =
     ((None, Some (errorString invalid_api_key_message)), test_state) \<and>
   count_list ''ckey:tkey:tsecret:more'' (CHR '':'') \<noteq> 2 \<and>
   NewAuthenticatedClient (test_env (Inl ''unreachable'')) (\<lambda>token realm. Inr anonSigner_OAuthSign)
       ''http://maas/api/'' ''ckey:tkey:tsecret:more'' test_state =
     ((None, Some (errorString invalid_api_key_message)), test_state) \<and>
   count_list ''ckey:tkey:tsecret'' (CHR '':'') = 2 \<and>
   NewAuthenticatedClient (test_env (Inl ''unreachable'')) (\<lambda>token realm. Inr anonSigner_OAuthSign)
       ''http://maas/api/'' ''ckey:tkey:tsecret'' test_state \<noteq>
     ((None, Some (errorString invalid_api_key_message)), test_state)"
proof -
  have c1: "count_list ''ckey:tkey'' (CHR '':'') \<noteq> 2" by simp
  have c2: "count_list ''ckey:tkey:tsecret:more'' (CHR '':'') \<noteq> 2" by simp
  have c3: "count_list ''ckey:tkey:tsecret'' (CHR '':'') = 2" by simp
  from c1 c2 c3
    NewAuthenticatedClient_invalid_key [of "test_env (Inl ''unreachable'')"
      "\<lambda>token realm. Inr anonSigner_OAuthSign" "''http://maas/api/''" "''ckey:tkey''" test_state]
    NewAuthenticatedClient_invalid_key [of "test_env (Inl ''unreachable'')"
      "\<lambda>token realm. Inr anonSigner_OAuthSign" "''http://maas/api/''" "''ckey:tkey:tsecret:more''" test_state]
    NewAuthenticatedClient_invalid_key [of "test_env (Inl ''unreachable'')"
      "\<lambda>token realm. Inr anonSigner_OAuthSign" "''http://maas/api/''" "''ckey:tkey:tsecret''" test_state]
  show ?thesis by blast
qed

text \<open>
  C4 says that the first colon-separated field of the key is an unused placeholder. The
  token literal stores it as \<^verbatim>\<open>ConsumerKey\<close>: two keys that differ in the first field
  only give different tokens, and the signer constructor is handed the first field.
\<close>

theorem NewAuthenticatedClient_token_counterexample:
  "strings_Split ''ckey:tkey:tsecret'' (CHR '':'') = [''ckey'', ''tkey'', ''tsecret''] \<and>
   NewAuthenticatedClient_token (strings_Split ''ckey:tkey:tsecret'' (CHR '':'')) =
     \<lparr>ConsumerKey = ''ckey'', ConsumerSecret = [], TokenKey = ''tkey'', TokenSecret = ''tsecret''\<rparr> \<and>
   NewAuthenticatedClient_token (strings_Split ''ckey:tkey:tsecret'' (CHR '':'')) \<noteq>
     NewAuthenticatedClient_token (strings_Split ''other:tkey:tsecret'' (CHR '':'')) \<and>
   NewAuthenticatedClient (test_env (Inl ''unreachable'')) (\<lambda>token realm. Inl (ConsumerKey token))
       ''/api/'' ''ckey:tkey:tsecret'' test_state =
     ((None, Some (foreignError ''ckey'')), test_state)"
  by (simp add: NewAuthenticatedClient_def NewAuthenticatedClient_token_def)

text \<open>
  C4, amended. For every well-formed three-field apiKey string,
  \<^verbatim>\<open>NewAuthenticatedClient\<close> builds the OAuth token with the consumer secret equal to the
  empty string, the token key and the token secret taken from the second and third
  fields, and the consumer key taken from the first field; it hands that token and the
  realm \<^verbatim>\<open>MAAS API\<close> to the signer constructor, and returns the constructor's error, the
  parse error of the base address, or the client made of the signer and the parsed base
  address.
\<close>

theorem NewAuthenticatedClient_token_fields:
  assumes "strings_Split apiKey (CHR '':'') = [field1, field2, field3]"
  shows "NewAuthenticatedClient_token (strings_Split apiKey (CHR '':'')) =
           \<lparr>ConsumerKey = field1, ConsumerSecret = [], TokenKey = field2, TokenSecret = field3\<rparr> \<and>
         NewAuthenticatedClient E NewPLAINTEXTOAuthSigner BaseURL' apiKey s =
           (case NewPLAINTEXTOAuthSigner
                   \<lparr>ConsumerKey = field1, ConsumerSecret = [], TokenKey = field2,
                    TokenSecret = field3\<rparr> ''MAAS API'' of
              Inl err \<Rightarrow> ((None, Some (foreignError err)), s)
            | Inr signer \<Rightarrow>
                (case url_Parse E BaseURL' of
                   Inl err \<Rightarrow> ((None, Some (foreignError err)), s)
                 | Inr parsedBaseURL \<Rightarrow>
                     ((Some \<lparr>BaseURL = next_addr s, Signer = signer\<rparr>, None),
                      s\<lparr>urls := (urls s)(next_addr s \<mapsto> parsedBaseURL),
                        next_addr := Suc (next_addr s)\<rparr>)))"
  using assms
  by (simp add: NewAuthenticatedClient_def NewAuthenticatedClient_token_def Let_def new_URL_def
      split: sum.splits)

theorem NewAuthenticatedClient_token_fields_witness:
  "strings_Split ''ckey:tkey:tsecret'' (CHR '':'') = [''ckey'', ''tkey'', ''tsecret''] \<and>
   NewAuthenticatedClient (test_env (Inl ''unreachable''))
       (\<lambda>token realm. Inl (ConsumerKey token @ ''/'' @ ConsumerSecret token @ ''/'' @
                             TokenKey token @ ''/'' @ TokenSecret token @ ''/'' @ realm))
       ''http://maas/api/'' ''ckey:tkey:tsecret'' test_state =
     ((None, Some (foreignError ''ckey//tkey/tsecret/MAAS API'')), test_state) \<and>
   NewAuthenticatedClient (test_env (Inl ''unreachable'')) (\<lambda>token realm. Inr anonSigner_OAuthSign)
       ''/api/'' ''ckey:tkey:tsecret'' test_state =
     ((Some \<lparr>BaseURL = 5, Signer = anonSigner_OAuthSign\<rparr>, None),
      test_state\<lparr>urls := (urls test_state)(5 \<mapsto> test_URL), next_addr := 6\<rparr>)"
proof -
  have h: "strings_Split ''ckey:tkey:tsecret'' (CHR '':'') = [''ckey'', ''tkey'', ''tsecret'']"
    by simp
  have n: "next_addr test_state = 5"
    by (simp add: test_state_def)
  from NewAuthenticatedClient_token_fields [OF h, where E = "test_env (Inl ''unreachable'')"
      and NewPLAINTEXTOAuthSigner = "\<lambda>token realm. Inl (ConsumerKey token @ ''/'' @
          ConsumerSecret token @ ''/'' @ TokenKey token @ ''/'' @ TokenSecret token @ ''/'' @ realm)"
      and BaseURL' = "''http://maas/api/''" and s = test_state]
  have a: "NewAuthenticatedClient (test_env (Inl ''unreachable''))
       (\<lambda>token realm. Inl (ConsumerKey token @ ''/'' @ ConsumerSecret token @ ''/'' @
                             TokenKey token @ ''/'' @ TokenSecret token @ ''/'' @ realm))
       ''http://maas/api/'' ''ckey:tkey:tsecret'' test_state =
     ((None, Some (foreignError ''ckey//tkey/tsecret/MAAS API'')), test_state)"
    by simp
  from NewAuthenticatedClient_token_fields [OF h, where E = "test_env (Inl ''unreachable'')"
      and NewPLAINTEXTOAuthSigner = "\<lambda>token realm. Inr anonSigner_OAuthSign"
      and BaseURL' = "''/api/''" and s = test_state]
  have b: "NewAuthenticatedClient (test_env (Inl ''unreachable'')) (\<lambda>token realm. Inr anonSigner_OAuthSign)
       ''/api/'' ''ckey:tkey:tsecret'' test_state =
     ((Some \<lparr>BaseURL = 5, Signer = anonSigner_OAuthSign\<rparr>, None),
      test_state\<lparr>urls := (urls test_state)(5 \<mapsto> test_URL), next_addr := 6\<rparr>)"
    by (simp add: n test_env_def test_URL_def)
  from h a b show ?thesis by blast
qed

subsection \<open>The anonymous signer\<close>

text \<open>
  C8. For every request, the anonymous signer's sign operation succeeds (it returns no
  error) and leaves every part of the request (method, URL, headers, body) unchanged.
\<close>

theorem anonSigner_OAuthSign_noop:
  "snd (anonSigner_OAuthSign request) = None \<and>
   fst (anonSigner_OAuthSign request) = request \<and>
   Method (fst (anonSigner_OAuthSign request)) = Method request \<and>
   Target (fst (anonSigner_OAuthSign request)) = Target request \<and>
   Headers (fst (anonSigner_OAuthSign request)) = Headers request \<and>
   Body (fst (anonSigner_OAuthSign request)) = Body request"
  by (simp add: anonSigner_OAuthSign_def)

end
